theory Spec2Isabelle
  imports Complex_Main
begin

section \<open>JavaScript values\<close>

text \<open>
  The module \<^verbatim>\<open>g-maps.js\<close> is a facade over the Google Maps widget library. Its
  arguments are untyped JavaScript values, and three of its methods branch on
  \<^verbatim>\<open>typeof\<close>, so the values are modelled with their runtime tag.

  A number is an IEEE double; the program never computes with one, it only passes them on,
  so the finite ones are modelled as rationals. \<open>WidgetRef a\<close> is a reference to the
  widget object stored at address \<open>a\<close>.

  A caller-supplied function is identified by a number, and is one of three kinds by what
  it does when it is called: \<open>Fn n\<close> returns and touches nothing; \<open>Thrower n e\<close>
  throws \<open>e\<close>; \<open>Popper n\<close> calls \<^verbatim>\<open>this.pop()\<close>, so it takes the last element off
  the array it is called on and returns, and throws a TypeError when it is called on
  nothing. The facade cannot tell the three apart: \<^verbatim>\<open>typeof\<close> is \<^verbatim>\<open>function\<close> for each.
\<close>

datatype js_error =
    TypeError
  | ReferenceError
  | Error string
  | OutsideModel

datatype jsnum = Finite rat | NaN | PosInf | NegInf

datatype key = Name string | Idx nat

datatype jsval =
    Undefined
  | Null
  | Bool bool
  | Num jsnum
  | Str string
  | Fn nat
  | Thrower nat js_error
  | Popper nat
  | Arr "jsval list"
  | Obj "(key \<times> jsval) list"
  | WidgetRef nat

text \<open>The operator \<^verbatim>\<open>typeof\<close>.\<close>

fun typeof :: "jsval \<Rightarrow> string" where
  "typeof Undefined = ''undefined''"
| "typeof Null = ''object''"
| "typeof (Bool b) = ''boolean''"
| "typeof (Num n) = ''number''"
| "typeof (Str s) = ''string''"
| "typeof (Fn f) = ''function''"
| "typeof (Thrower f e) = ''function''"
| "typeof (Popper f) = ''function''"
| "typeof (Arr xs) = ''object''"
| "typeof (Obj kvs) = ''object''"
| "typeof (WidgetRef a) = ''object''"

text \<open>The conversion to a boolean that \<^verbatim>\<open>!\<close>, \<^verbatim>\<open>&&\<close> and \<^verbatim>\<open>||\<close> apply.\<close>

fun truthy :: "jsval \<Rightarrow> bool" where
  "truthy Undefined = False"
| "truthy Null = False"
| "truthy (Bool b) = b"
| "truthy (Num (Finite q)) = (q \<noteq> 0)"
| "truthy (Num NaN) = False"
| "truthy (Num PosInf) = True"
| "truthy (Num NegInf) = True"
| "truthy (Str s) = (s \<noteq> [])"
| "truthy (Fn f) = True"
| "truthy (Thrower f e) = True"
| "truthy (Popper f) = True"
| "truthy (Arr xs) = True"
| "truthy (Obj kvs) = True"
| "truthy (WidgetRef a) = True"

text \<open>
  Reading a property, \<^verbatim>\<open>v.name\<close> or \<^verbatim>\<open>v[i]\<close>. Reading from \<^verbatim>\<open>undefined\<close> or
  \<^verbatim>\<open>null\<close> throws a TypeError; a property that is not there reads as \<^verbatim>\<open>undefined\<close>.
  Only own properties are modelled: the names the program reads (\<^verbatim>\<open>icon\<close>, \<^verbatim>\<open>latLng\<close>,
  \<^verbatim>\<open>maps\<close>, \<^verbatim>\<open>0\<close>, \<^verbatim>\<open>1\<close>) are not inherited from a built-in prototype.
\<close>

fun js_get :: "jsval \<Rightarrow> key \<Rightarrow> js_error + jsval" where
  "js_get Undefined k = Inl TypeError"
| "js_get Null k = Inl TypeError"
| "js_get (Obj kvs) k = (case map_of kvs k of None \<Rightarrow> Inr Undefined | Some v \<Rightarrow> Inr v)"
| "js_get (Arr xs) (Idx i) = (if i < length xs then Inr (xs ! i) else Inr Undefined)"
| "js_get (Str s) (Idx i) = (if i < length s then Inr (Str [s ! i]) else Inr Undefined)"
| "js_get v k = Inr Undefined"

section \<open>Loading the library\<close>

text \<open>
  The callback of \<^verbatim>\<open>require\<close> (lines 70 to 286) runs once the script of the mapping
  library has been fetched. It tests the global \<^verbatim>\<open>google\<close>, defines the constructor
  \<^verbatim>\<open>Map\<close> and publishes it by resolving the module's deferred \<^verbatim>\<open>$promise\<close>.
  A global that was never declared throws a ReferenceError when read.
\<close>

datatype binding = Undeclared | Bound jsval

datatype promise = Pending | Resolved

text \<open>The value of the guard \<^verbatim>\<open>!google && !google.maps\<close> (line 73).\<close>

definition library_guard :: "binding \<Rightarrow> js_error + bool" where
  "library_guard google =
     (case google of
        Undeclared \<Rightarrow> Inl ReferenceError
      | Bound g \<Rightarrow>
          if truthy g then Inr False
          else (case js_get g (Name ''maps'') of
                  Inl e \<Rightarrow> Inl e
                | Inr m \<Rightarrow> Inr (\<not> truthy m)))"

definition loader_callback :: "binding \<Rightarrow> promise \<Rightarrow> js_error + promise" where
  "loader_callback google p =
     (case library_guard google of
        Inl e \<Rightarrow> Inl e
      | Inr True \<Rightarrow> Inl (Error ''Maps library could not be loaded!'')
      | Inr False \<Rightarrow> Inr Resolved)"

text \<open>
  What the specification calls a library that loaded: the global object is there and
  so is its \<^verbatim>\<open>maps\<close> namespace.
\<close>

definition library_loaded :: "binding \<Rightarrow> bool" where
  "library_loaded google =
     (case google of
        Undeclared \<Rightarrow> False
      | Bound g \<Rightarrow> truthy g \<and> (case js_get g (Name ''maps'') of Inl e \<Rightarrow> False | Inr m \<Rightarrow> truthy m))"

section \<open>The widget library\<close>

text \<open>
  The mapping library is an external collaborator. The model keeps of it what the facade
  tells it: a coordinate object holds the two values it was built from, a widget holds
  the element and options it was built from, the zoom and centre last set, and its
  listeners, a marker holds the options it was built from and its listeners. The library
  validates nothing here and fires no event by itself.
\<close>

datatype latlng = LatLng jsval jsval

datatype zoom_control_style = DEFAULT | SMALL | LARGE

datatype control_position =
    TOP_LEFT | TOP_CENTER | TOP_RIGHT | LEFT_TOP | LEFT_CENTER | LEFT_BOTTOM
  | RIGHT_TOP | RIGHT_CENTER | RIGHT_BOTTOM | BOTTOM_LEFT | BOTTOM_CENTER | BOTTOM_RIGHT

record zoom_control_options =
  style :: zoom_control_style
  position :: control_position

record map_options =
  zoom :: jsval
  disableDefaultUI :: bool
  scrollwheel :: bool
  zoomControl :: bool
  center :: latlng
  zoomControlOptions :: zoom_control_options
  scaleControl :: bool

text \<open>
  The two listeners that \<^verbatim>\<open>init\<close> installs on a widget are closures over the facade:
  \<open>MapClick\<close> is the one of line 271, \<open>ZoomChanged\<close> the one of line 276.
\<close>

datatype handler = MapClick | ZoomChanged

record widget =
  elem_w :: jsval
  options_w :: map_options
  zoom_w :: jsval
  center_w :: latlng
  listeners_w :: "(string \<times> handler) list"

text \<open>
  The listener that \<^verbatim>\<open>assignMarkerEvent\<close> installs on a marker is a closure over
  the callback it was given; a marker's listener is stored as the event's name and that
  callback.
\<close>

record marker =
  position_m :: latlng
  icon_m :: jsval
  map_m :: jsval
  data_m :: jsval
  listeners_m :: "(string \<times> jsval) list"

section \<open>The facade\<close>

text \<open>
  The fields that the constructor \<^verbatim>\<open>Map\<close> assigns. The marker list holds handles:
  a handle is the address of a marker object in the store \<open>marker_objs\<close> below.
\<close>

record facade =
  map_f :: jsval
  markers :: "nat list"
  mapClickCallbacks :: "jsval list"
  mapZoomCallbacks :: "jsval list"
  elem :: jsval
  icon :: jsval
  mapOptions :: map_options

text \<open>
  A method runs on the facade \<open>this\<close> and on what the facade reaches outside itself:
  the marker objects and widgets of the library, and the functions it was handed. Calling
  a caller-supplied function is recorded in \<open>calls\<close> as the function and its argument,
  whether the function then returns or throws.
\<close>

record world =
  this :: facade
  marker_objs :: "marker list"
  widgets :: "widget list"
  calls :: "(jsval \<times> jsval) list"

text \<open>
  How a method ends: it returns \<^verbatim>\<open>this\<close>, it returns a value, or it throws. The
  world it leaves is returned beside, also when it throws.
\<close>

datatype completion = ReturnThis | ReturnVal jsval | Throw js_error

definition defaultOptions_icon :: jsval where
  "defaultOptions_icon = Str ''map-pin.png''"

text \<open>
  The constructor (lines 82 to 105). \<^verbatim>\<open>options.icon\<close> throws on a missing
  \<^verbatim>\<open>options\<close>; nothing else of \<^verbatim>\<open>options\<close> is read.
\<close>

definition Map :: "jsval \<Rightarrow> jsval \<Rightarrow> js_error + facade" where
  "Map el options =
     (case js_get options (Name ''icon'') of
        Inl e \<Rightarrow> Inl e
      | Inr i \<Rightarrow>
          Inr \<lparr> map_f = Null,
                markers = [],
                mapClickCallbacks = [],
                mapZoomCallbacks = [],
                elem = el,
                icon = (if truthy i then i else defaultOptions_icon),
                mapOptions =
                  \<lparr> zoom = Num (Finite 4),
                    disableDefaultUI = True,
                    scrollwheel = False,
                    zoomControl = True,
                    center = LatLng (Num (Finite 47.147354)) (Num (Finite 16.158813)),
                    zoomControlOptions = \<lparr> style = LARGE, position = RIGHT_TOP \<rparr>,
                    scaleControl = False \<rparr> \<rparr>)"

text \<open>
  A call of a method of the widget \<^verbatim>\<open>this.map\<close>: a TypeError when \<^verbatim>\<open>this.map\<close> is
  \<^verbatim>\<open>null\<close> (or anything but a widget), the widget updated otherwise.
\<close>

definition on_widget :: "(widget \<Rightarrow> widget) \<Rightarrow> world \<Rightarrow> completion \<times> world" where
  "on_widget f w =
     (case map_f (this w) of
        WidgetRef a \<Rightarrow>
          if a < length (widgets w)
          then (ReturnThis, w\<lparr>widgets := (widgets w)[a := f (widgets w ! a)]\<rparr>)
          else (Throw TypeError, w)
      | _ \<Rightarrow> (Throw TypeError, w))"

definition setCenter :: "jsval \<Rightarrow> world \<Rightarrow> completion \<times> world" where
  "setCenter latLng w =
     (case js_get latLng (Idx 0) of
        Inl e \<Rightarrow> (Throw e, w)
      | Inr a \<Rightarrow>
          (case js_get latLng (Idx 1) of
             Inl e \<Rightarrow> (Throw e, w)
           | Inr b \<Rightarrow> on_widget (\<lambda>g. g\<lparr>center_w := LatLng a b\<rparr>) w))"

definition setZoom :: "jsval \<Rightarrow> world \<Rightarrow> completion \<times> world" where
  "setZoom z w =
     (if typeof z = ''number'' then on_widget (\<lambda>g. g\<lparr>zoom_w := z\<rparr>) w
      else (ReturnThis, w))"

text \<open>\<^verbatim>\<open>new google.maps.Marker(opts)\<close>: a new object in the store, and its handle.\<close>

definition new_Marker :: "marker \<Rightarrow> world \<Rightarrow> nat \<times> world" where
  "new_Marker m w = (length (marker_objs w), w\<lparr>marker_objs := marker_objs w @ [m]\<rparr>)"

text \<open>
  A call on the marker object of a handle. The handles of the marker list are always
  addresses of the store (lemma \<open>handles_ok_chain\<close> below); on any other number there
  is no object to change.
\<close>

definition update_marker :: "nat \<Rightarrow> (marker \<Rightarrow> marker) \<Rightarrow> world \<Rightarrow> world" where
  "update_marker h f w =
     (if h < length (marker_objs w)
      then w\<lparr>marker_objs := (marker_objs w)[h := f (marker_objs w ! h)]\<rparr>
      else w)"

definition assignMarkerEvent :: "nat \<Rightarrow> string \<Rightarrow> jsval \<Rightarrow> world \<Rightarrow> completion \<times> world" where
  "assignMarkerEvent h event callback w =
     (ReturnThis, update_marker h (\<lambda>m. m\<lparr>listeners_m := listeners_m m @ [(event, callback)]\<rparr>) w)"

text \<open>
  \<^verbatim>\<open>addMarkers\<close> (lines 136 to 159); \<^verbatim>\<open>coordsArray\<close> is an array, as its
  documentation says, and the loop runs over it from the first entry to the last.
\<close>

fun addMarkers :: "jsval list \<Rightarrow> jsval \<Rightarrow> world \<Rightarrow> completion \<times> world" where
  "addMarkers [] callback w = (ReturnThis, w)"
| "addMarkers (c # coordsArray) callback w =
     (case js_get c (Name ''latLng'') of
        Inl e \<Rightarrow> (Throw e, w)
      | Inr l \<Rightarrow>
          (case js_get l (Idx 0) of
             Inl e \<Rightarrow> (Throw e, w)
           | Inr a \<Rightarrow>
               (case js_get l (Idx 1) of
                  Inl e \<Rightarrow> (Throw e, w)
                | Inr b \<Rightarrow>
                    (let (h, w1) = new_Marker \<lparr> position_m = LatLng a b,
                                                icon_m = icon (this w),
                                                map_m = map_f (this w),
                                                data_m = c,
                                                listeners_m = [] \<rparr> w;
                         w2 = snd (assignMarkerEvent h ''click'' callback w1);
                         w3 = w2\<lparr>this := (this w2)\<lparr>markers := markers (this w2) @ [h]\<rparr>\<rparr>
                     in addMarkers coordsArray callback w3))))"

text \<open>\<^verbatim>\<open>setAllMap\<close> (lines 178 to 185): \<^verbatim>\<open>setMap\<close> on each stored handle in turn.\<close>

fun setMap_each :: "nat list \<Rightarrow> jsval \<Rightarrow> world \<Rightarrow> world" where
  "setMap_each [] target w = w"
| "setMap_each (h # hs) target w = setMap_each hs target (update_marker h (\<lambda>m. m\<lparr>map_m := target\<rparr>) w)"

definition setAllMap :: "jsval \<Rightarrow> world \<Rightarrow> completion \<times> world" where
  "setAllMap target w = (ReturnThis, setMap_each (markers (this w)) target w)"

definition clearMarkers :: "world \<Rightarrow> completion \<times> world" where
  "clearMarkers w = (ReturnThis, snd (setAllMap Null w))"

definition showMarkers :: "world \<Rightarrow> completion \<times> world" where
  "showMarkers w = (ReturnThis, snd (setAllMap (map_f (this w)) w))"

definition deleteMarkers :: "world \<Rightarrow> completion \<times> world" where
  "deleteMarkers w =
     (let w1 = snd (clearMarkers w)
      in (ReturnThis, w1\<lparr>this := (this w1)\<lparr>markers := []\<rparr>\<rparr>))"

definition registerMapZoomEvent :: "jsval \<Rightarrow> world \<Rightarrow> completion \<times> world" where
  "registerMapZoomEvent callback w =
     (if typeof callback = ''function''
      then (ReturnThis, w\<lparr>this := (this w)\<lparr>mapZoomCallbacks := mapZoomCallbacks (this w) @ [callback]\<rparr>\<rparr>)
      else (ReturnThis, w))"

definition registerMapClickEvent :: "jsval \<Rightarrow> world \<Rightarrow> completion \<times> world" where
  "registerMapClickEvent callback w =
     (if typeof callback = ''function''
      then (ReturnThis, w\<lparr>this := (this w)\<lparr>mapClickCallbacks := mapClickCallbacks (this w) @ [callback]\<rparr>\<rparr>)
      else (ReturnThis, w))"

text \<open>
  \<^verbatim>\<open>this[arrayName]\<close> for the two callback lists of the facade, read and written.
\<close>

definition array_of :: "string \<Rightarrow> facade \<Rightarrow> jsval list" where
  "array_of arrayName f =
     (if arrayName = ''mapClickCallbacks'' then mapClickCallbacks f
      else if arrayName = ''mapZoomCallbacks'' then mapZoomCallbacks f
      else [])"

definition put_array :: "string \<Rightarrow> jsval list \<Rightarrow> facade \<Rightarrow> facade" where
  "put_array arrayName xs f =
     (if arrayName = ''mapClickCallbacks'' then f\<lparr>mapClickCallbacks := xs\<rparr>
      else if arrayName = ''mapZoomCallbacks'' then f\<lparr>mapZoomCallbacks := xs\<rparr>
      else f)"

text \<open>
  The call \<^verbatim>\<open>xs[i](args)\<close> of a function as a method of the array \<open>xs\<close>: the function
  throws, or it returns and leaves the array as given.
\<close>

fun call_on :: "jsval \<Rightarrow> jsval list \<Rightarrow> js_error + jsval list" where
  "call_on (Fn n) xs = Inr xs"
| "call_on (Thrower n e) xs = Inl e"
| "call_on (Popper n) xs = Inr (butlast xs)"
| "call_on v xs = Inl TypeError"

text \<open>
  The call \<^verbatim>\<open>callback(d)\<close> of a function on nothing (the module is in strict mode, so
  its \<^verbatim>\<open>this\<close> is \<^verbatim>\<open>undefined\<close>): the error it throws, if it throws.
\<close>

fun call_plain :: "jsval \<Rightarrow> js_error option" where
  "call_plain (Fn n) = None"
| "call_plain (Thrower n e) = Some e"
| "call_plain (Popper n) = Some TypeError"
| "call_plain v = Some TypeError"

text \<open>
  The loop of \<^verbatim>\<open>onMapInteract\<close> (lines 245 to 247), at index \<open>i\<close> with the number of
  turns that are left: the length \<open>j\<close> is read once, before the loop. Each turn reads
  \<^verbatim>\<open>this[arrayName][i]\<close> again, which is \<^verbatim>\<open>undefined\<close> beyond the end of the array, and
  calls it with the payload. Calling what is not a function throws a TypeError. Nothing
  catches what a callback throws: the loop ends there, and the callbacks after it are not
  called.
\<close>

fun call_each :: "string \<Rightarrow> nat \<Rightarrow> nat \<Rightarrow> jsval \<Rightarrow> world \<Rightarrow> completion \<times> world" where
  "call_each arrayName i 0 args w = (ReturnThis, w)"
| "call_each arrayName i (Suc n) args w =
     (let xs = array_of arrayName (this w);
          f = (if i < length xs then xs ! i else Undefined)
      in if typeof f = ''function''
         then (case call_on f xs of
                 Inl e \<Rightarrow> (Throw e, w\<lparr>calls := calls w @ [(f, args)]\<rparr>)
               | Inr xs' \<Rightarrow>
                   call_each arrayName (Suc i) n args
                     (w\<lparr>calls := calls w @ [(f, args)],
                        this := put_array arrayName xs' (this w)\<rparr>))
         else (Throw TypeError, w))"

text \<open>
  \<^verbatim>\<open>this[arrayName]\<close> is modelled for the array fields of the facade. A marker object
  is not a function. Any other name is outside the model.
\<close>

definition onMapInteract :: "string \<Rightarrow> jsval \<Rightarrow> world \<Rightarrow> completion \<times> world" where
  "onMapInteract arrayName args w =
     (if arrayName = ''mapClickCallbacks''
        then call_each arrayName 0 (length (mapClickCallbacks (this w))) args w
      else if arrayName = ''mapZoomCallbacks''
        then call_each arrayName 0 (length (mapZoomCallbacks (this w))) args w
      else if arrayName = ''markers''
        then (if markers (this w) = [] then (ReturnThis, w) else (Throw TypeError, w))
      else (Throw OutsideModel, w))"

definition getZoom :: "world \<Rightarrow> completion \<times> world" where
  "getZoom w =
     (case map_f (this w) of
        WidgetRef a \<Rightarrow>
          if a < length (widgets w) then (ReturnVal (zoom_w (widgets w ! a)), w)
          else (Throw TypeError, w)
      | _ \<Rightarrow> (Throw TypeError, w))"

text \<open>
  \<^verbatim>\<open>init\<close> (lines 264 to 281): a new widget on the facade's element with the facade's
  options, and the two listeners.
\<close>

definition init :: "world \<Rightarrow> completion \<times> world" where
  "init w =
     (let a = length (widgets w);
          g = \<lparr> elem_w = elem (this w),
                options_w = mapOptions (this w),
                zoom_w = zoom (mapOptions (this w)),
                center_w = center (mapOptions (this w)),
                listeners_w = [(''click'', MapClick), (''zoom_changed'', ZoomChanged)] \<rparr>
      in (ReturnThis, w\<lparr>this := (this w)\<lparr>map_f := WidgetRef a\<rparr>, widgets := widgets w @ [g]\<rparr>))"

text \<open>The bodies of the two listeners of \<^verbatim>\<open>init\<close>.\<close>

fun handler_body :: "handler \<Rightarrow> jsval \<Rightarrow> world \<Rightarrow> completion \<times> world" where
  "handler_body MapClick event w = onMapInteract ''mapClickCallbacks'' event w"
| "handler_body ZoomChanged event w =
     (case getZoom w of
        (ReturnVal z, w1) \<Rightarrow> onMapInteract ''mapZoomCallbacks'' z w1
      | (r, w1) \<Rightarrow> (r, w1))"

text \<open>
  An event of a marker fires: the library runs the listeners registered for it on that
  marker, in the order of their registration, with the marker as \<^verbatim>\<open>this\<close>. The
  listener (lines 166 to 170) calls its callback with \<^verbatim>\<open>this.data\<close> when the callback
  is a function. What the callback throws leaves the listener and ends the run. The
  result is the world once the event has fired.
\<close>

fun run_marker_listeners :: "(string \<times> jsval) list \<Rightarrow> string \<Rightarrow> jsval \<Rightarrow> world \<Rightarrow> world" where
  "run_marker_listeners [] event d w = w"
| "run_marker_listeners ((ev, callback) # ls) event d w =
     (if ev = event \<and> typeof callback = ''function''
      then (case call_plain callback of
              Some e \<Rightarrow> w\<lparr>calls := calls w @ [(callback, d)]\<rparr>
            | None \<Rightarrow> run_marker_listeners ls event d (w\<lparr>calls := calls w @ [(callback, d)]\<rparr>))
      else run_marker_listeners ls event d w)"

definition fire_marker :: "nat \<Rightarrow> string \<Rightarrow> world \<Rightarrow> world" where
  "fire_marker h event w =
     (if h < length (marker_objs w)
      then run_marker_listeners (listeners_m (marker_objs w ! h)) event (data_m (marker_objs w ! h)) w
      else w)"

section \<open>Chains of calls\<close>

text \<open>
  Every method but \<^verbatim>\<open>getZoom\<close> returns \<^verbatim>\<open>this\<close>, so that calls are chained:
  \<^verbatim>\<open>gmap.deleteMarkers().setCenter(latLng).setZoom(7)\<close>. A chain stops at the first call
  that throws.
\<close>

datatype call =
    SetCenter jsval
  | SetZoom jsval
  | AddMarkers "jsval list" jsval
  | SetAllMap jsval
  | ClearMarkers
  | ShowMarkers
  | DeleteMarkers
  | RegisterMapZoomEvent jsval
  | RegisterMapClickEvent jsval
  | OnMapInteract string jsval
  | Init

fun invoke :: "call \<Rightarrow> world \<Rightarrow> completion \<times> world" where
  "invoke (SetCenter latLng) w = setCenter latLng w"
| "invoke (SetZoom z) w = setZoom z w"
| "invoke (AddMarkers coordsArray callback) w = addMarkers coordsArray callback w"
| "invoke (SetAllMap target) w = setAllMap target w"
| "invoke ClearMarkers w = clearMarkers w"
| "invoke ShowMarkers w = showMarkers w"
| "invoke DeleteMarkers w = deleteMarkers w"
| "invoke (RegisterMapZoomEvent callback) w = registerMapZoomEvent callback w"
| "invoke (RegisterMapClickEvent callback) w = registerMapClickEvent callback w"
| "invoke (OnMapInteract arrayName args) w = onMapInteract arrayName args w"
| "invoke Init w = init w"

fun chain :: "call list \<Rightarrow> world \<Rightarrow> completion \<times> world" where
  "chain [] w = (ReturnThis, w)"
| "chain (c # cs) w =
     (case invoke c w of
        (ReturnThis, w1) \<Rightarrow> chain cs w1
      | (r, w1) \<Rightarrow> (r, w1))"

section \<open>Notions of the specification\<close>

text \<open>
  A marker entry is a value whose \<^verbatim>\<open>latLng\<close> can be indexed: these are the entries
  on which the body of the loop of \<^verbatim>\<open>addMarkers\<close> does not throw.
\<close>

definition has_latLng :: "jsval \<Rightarrow> bool" where
  "has_latLng c =
     (case js_get c (Name ''latLng'') of
        Inl e \<Rightarrow> False
      | Inr l \<Rightarrow> l \<noteq> Undefined \<and> l \<noteq> Null)"

definition value_of :: "js_error + jsval \<Rightarrow> jsval" where
  "value_of r = (case r of Inl e \<Rightarrow> Undefined | Inr v \<Rightarrow> v)"

text \<open>The marker object that \<^verbatim>\<open>addMarkers\<close> is expected to leave in the store for an entry.\<close>

definition built_marker :: "facade \<Rightarrow> jsval \<Rightarrow> jsval \<Rightarrow> marker" where
  "built_marker f callback c =
     \<lparr> position_m = LatLng (value_of (js_get (value_of (js_get c (Name ''latLng''))) (Idx 0)))
                           (value_of (js_get (value_of (js_get c (Name ''latLng''))) (Idx 1))),
       icon_m = icon f,
       map_m = map_f f,
       data_m = c,
       listeners_m = [(''click'', callback)] \<rparr>"

text \<open>
  A callback that returns whenever it is called and leaves the array it is called on as
  it is.
\<close>

fun returns :: "jsval \<Rightarrow> bool" where
  "returns (Fn n) = True"
| "returns v = False"

text \<open>Every handle of the marker list is the address of a marker object.\<close>

definition handles_ok :: "world \<Rightarrow> bool" where
  "handles_ok w = list_all (\<lambda>h. h < length (marker_objs w)) (markers (this w))"

text \<open>
  The calls that add to the lists of the facade, and what a sequence of them is expected
  to have added: the functions registered for clicks, those registered for zooms, and the
  entries given to \<^verbatim>\<open>addMarkers\<close>.
\<close>

fun adds :: "call \<Rightarrow> bool" where
  "adds (AddMarkers coordsArray callback) = True"
| "adds (RegisterMapZoomEvent callback) = True"
| "adds (RegisterMapClickEvent callback) = True"
| "adds c = False"

fun click_functions :: "call list \<Rightarrow> jsval list" where
  "click_functions [] = []"
| "click_functions (RegisterMapClickEvent callback # cs) =
     (if typeof callback = ''function'' then callback # click_functions cs else click_functions cs)"
| "click_functions (c # cs) = click_functions cs"

fun zoom_functions :: "call list \<Rightarrow> jsval list" where
  "zoom_functions [] = []"
| "zoom_functions (RegisterMapZoomEvent callback # cs) =
     (if typeof callback = ''function'' then callback # zoom_functions cs else zoom_functions cs)"
| "zoom_functions (c # cs) = zoom_functions cs"

fun entries_of :: "call list \<Rightarrow> jsval list" where
  "entries_of [] = []"
| "entries_of (AddMarkers coordsArray callback # cs) = coordsArray @ entries_of cs"
| "entries_of (c # cs) = entries_of cs"

section \<open>A running example\<close>

text \<open>
  The scenario of the specification: a facade is constructed on an element with empty
  options, and two entries, at [1,2] with payload \<^verbatim>\<open>{a:1}\<close> and at [3,4] with payload
  \<^verbatim>\<open>{b:2}\<close>, are added with the click callback \<open>Fn 0\<close>.
\<close>

definition entry_a :: jsval where
  "entry_a = Obj [(Name ''latLng'', Arr [Num (Finite 1), Num (Finite 2)]),
                  (Name ''data'', Obj [(Name ''a'', Num (Finite 1))])]"

definition entry_b :: jsval where
  "entry_b = Obj [(Name ''latLng'', Arr [Num (Finite 3), Num (Finite 4)]),
                  (Name ''data'', Obj [(Name ''b'', Num (Finite 2))])]"

definition new_facade :: facade where
  "new_facade =
     \<lparr> map_f = Null, markers = [], mapClickCallbacks = [], mapZoomCallbacks = [],
       elem = Str ''#map'', icon = Str ''map-pin.png'',
       mapOptions =
         \<lparr> zoom = Num (Finite 4), disableDefaultUI = True, scrollwheel = False,
           zoomControl = True,
           center = LatLng (Num (Finite 47.147354)) (Num (Finite 16.158813)),
           zoomControlOptions = \<lparr> style = LARGE, position = RIGHT_TOP \<rparr>,
           scaleControl = False \<rparr> \<rparr>"

definition new_world :: world where
  "new_world = \<lparr> this = new_facade, marker_objs = [], widgets = [], calls = [] \<rparr>"




text \<open>A facade with two functions registered for clicks, the first of which pops the list.\<close>

definition popper_first :: world where
  "popper_first =
     snd (chain [RegisterMapClickEvent (Popper 1), RegisterMapClickEvent (Fn 2)] new_world)"

definition two_markers :: world where
  "two_markers = snd (chain [Init, AddMarkers [entry_a, entry_b] (Fn 0)] new_world)"

section \<open>Lemmas on the store and the loops\<close>

lemmas example_defs = two_markers_def new_world_def new_facade_def entry_a_def entry_b_def
  init_def new_Marker_def assignMarkerEvent_def update_marker_def

lemma js_get_defined:
  "v \<noteq> Undefined \<Longrightarrow> v \<noteq> Null \<Longrightarrow> \<exists>x. js_get v k = Inr x"
  by (cases v; cases k) (simp_all split: option.splits)

lemma js_get_error:
  "js_get v k = Inl e \<Longrightarrow> e = TypeError"
  by (cases v; cases k) (simp_all split: option.splits if_splits)

lemma update_marker_frame [simp]:
  "this (update_marker h f w) = this w"
  "widgets (update_marker h f w) = widgets w"
  "calls (update_marker h f w) = calls w"
  "length (marker_objs (update_marker h f w)) = length (marker_objs w)"
  by (simp_all add: update_marker_def)

lemma update_marker_nth:
  "k < length (marker_objs w) \<Longrightarrow>
   marker_objs (update_marker h f w) ! k = (if k = h then f (marker_objs w ! k) else marker_objs w ! k)"
  by (simp add: update_marker_def)

lemma setMap_each_frame [simp]:
  "this (setMap_each hs t w) = this w"
  "widgets (setMap_each hs t w) = widgets w"
  "calls (setMap_each hs t w) = calls w"
  "length (marker_objs (setMap_each hs t w)) = length (marker_objs w)"
  by (induction hs arbitrary: w) simp_all

lemma setMap_each_nth:
  "k < length (marker_objs w) \<Longrightarrow>
   marker_objs (setMap_each hs t w) ! k =
     (if k \<in> set hs then (marker_objs w ! k)\<lparr>map_m := t\<rparr> else marker_objs w ! k)"
proof (induction hs arbitrary: w)
  case Nil
  then show ?case by simp
next
  case (Cons h hs)
  from Cons.prems have "k < length (marker_objs (update_marker h (\<lambda>m. m\<lparr>map_m := t\<rparr>) w))"
    by simp
  from Cons.IH [OF this] Cons.prems show ?case
    by (simp add: update_marker_nth)
qed

text \<open>One turn of the loop of \<^verbatim>\<open>addMarkers\<close> on an entry whose \<^verbatim>\<open>latLng\<close> can be indexed.\<close>

lemma has_latLng_gets:
  "has_latLng c \<Longrightarrow>
   \<exists>l a b. js_get c (Name ''latLng'') = Inr l \<and> js_get l (Idx 0) = Inr a \<and> js_get l (Idx 1) = Inr b"
  unfolding has_latLng_def
  by (cases "js_get c (Name ''latLng'')") (auto dest: js_get_defined)

lemma addMarkers_step:
  assumes "has_latLng c"
  shows "addMarkers (c # cs) callback w =
           addMarkers cs callback
             (w\<lparr>marker_objs := marker_objs w @ [built_marker (this w) callback c],
                this := (this w)\<lparr>markers := markers (this w) @ [length (marker_objs w)]\<rparr>\<rparr>)"
proof -
  from has_latLng_gets [OF assms] obtain l a b where
    g: "js_get c (Name ''latLng'') = Inr l" "js_get l (Idx 0) = Inr a" "js_get l (Idx 1) = Inr b"
    by blast
  from g show ?thesis
    by (simp add: new_Marker_def assignMarkerEvent_def update_marker_def built_marker_def value_of_def)
qed

lemma built_marker_markers [simp]:
  "built_marker (f\<lparr>markers := ms\<rparr>) = built_marker f"
  by (simp add: fun_eq_iff built_marker_def)

text \<open>The whole loop, on entries that can all be indexed.\<close>

lemma addMarkers_entries:
  "list_all has_latLng cs \<Longrightarrow>
   addMarkers cs callback w =
     (ReturnThis,
      w\<lparr>marker_objs := marker_objs w @ map (built_marker (this w) callback) cs,
        this := (this w)\<lparr>markers := markers (this w) @
                  [length (marker_objs w) ..< length (marker_objs w) + length cs]\<rparr>\<rparr>)"
proof (induction cs arbitrary: w)
  case Nil
  then show ?case by simp
next
  case (Cons c cs)
  then have c: "has_latLng c" and cs: "list_all has_latLng cs" by simp_all
  show ?case
    unfolding addMarkers_step [OF c] Cons.IH [OF cs]
    by (simp add: upt_conv_Cons del: upt_Suc)
qed

text \<open>On any other array the loop throws, at the first entry that cannot be indexed.\<close>

lemma addMarkers_throws:
  "\<not> list_all has_latLng cs \<Longrightarrow> fst (addMarkers cs callback w) = Throw TypeError"
proof (induction cs arbitrary: w)
  case Nil
  then show ?case by simp
next
  case (Cons c cs)
  show ?case
  proof (cases "has_latLng c")
    case True
    with Cons.prems have "\<not> list_all has_latLng cs" by simp
    from Cons.IH [OF this] show ?thesis
      unfolding addMarkers_step [OF True] .
  next
    case False
    then show ?thesis
      unfolding has_latLng_def
      by (cases "js_get c (Name ''latLng'')") (auto dest: js_get_error)
  qed
qed

text \<open>
  What the guard of line 73 lets through: the constructor is published exactly when
  \<^verbatim>\<open>google\<close> is truthy, whatever its \<^verbatim>\<open>maps\<close>. An undeclared, \<^verbatim>\<open>undefined\<close> or
  \<^verbatim>\<open>null\<close> \<^verbatim>\<open>google\<close> throws while the guard is evaluated.
\<close>

lemma falsy_has_no_maps:
  "\<not> truthy g \<Longrightarrow> js_get g (Name ''maps'') = Inr m \<Longrightarrow> \<not> truthy m"
  by (cases g) auto

lemma library_guard_False:
  "library_guard google = Inr False \<longleftrightarrow> (\<exists>g. google = Bound g \<and> truthy g)"
proof (cases google)
  case Undeclared
  then show ?thesis by (simp add: library_guard_def)
next
  case (Bound g)
  show ?thesis
  proof (cases "truthy g")
    case True
    with Bound show ?thesis by (simp add: library_guard_def)
  next
    case False
    with Bound falsy_has_no_maps [OF False] show ?thesis
      by (cases "js_get g (Name ''maps'')") (simp_all add: library_guard_def)
  qed
qed

lemma loader_callback_resolves:
  "loader_callback google p = Inr Resolved \<longleftrightarrow> (\<exists>g. google = Bound g \<and> truthy g)"
  unfolding library_guard_False [symmetric]
  by (simp add: loader_callback_def split: sum.splits bool.splits)

lemma loader_callback_absent:
  "loader_callback Undeclared p = Inl ReferenceError"
  "loader_callback (Bound Undefined) p = Inl TypeError"
  "loader_callback (Bound Null) p = Inl TypeError"
  by (simp_all add: loader_callback_def library_guard_def)

text \<open>Before \<^verbatim>\<open>init\<close>, \<^verbatim>\<open>this.map\<close> is \<^verbatim>\<open>null\<close> and a call through it throws.\<close>

lemma setZoom_without_widget:
  "typeof z = ''number'' \<Longrightarrow> map_f (this w) = Null \<Longrightarrow> setZoom z w = (Throw TypeError, w)"
  by (simp add: setZoom_def on_widget_def)

section \<open>Lemmas on callbacks and chains\<close>

lemma put_array_same [simp]:
  "put_array a (array_of a f) f = f"
  by (simp add: put_array_def array_of_def)

lemma array_of_put_array:
  "a = ''mapClickCallbacks'' \<or> a = ''mapZoomCallbacks'' \<Longrightarrow> array_of a (put_array a xs f) = xs"
  by (auto simp add: put_array_def array_of_def)

lemma put_array_frame [simp]:
  "map_f (put_array a xs f) = map_f f"
  "markers (put_array a xs f) = markers f"
  by (simp_all add: put_array_def)

lemma call_each_frame [simp]:
  "map_f (this (snd (call_each a i n args w))) = map_f (this w)"
  "markers (this (snd (call_each a i n args w))) = markers (this w)"
  "marker_objs (snd (call_each a i n args w)) = marker_objs w"
  by (induction n arbitrary: i w) (simp_all add: Let_def split: sum.splits)

lemma returns_Fn:
  "returns f \<Longrightarrow> \<exists>n. f = Fn n"
  by (cases f) simp_all


text \<open>One turn of the loop on a callback that returns.\<close>

lemma call_each_step:
  "i < length (array_of a (this w)) \<Longrightarrow> array_of a (this w) ! i = Fn k \<Longrightarrow>
   call_each a i (Suc n) args w =
     call_each a (Suc i) n args (w\<lparr>calls := calls w @ [(Fn k, args)]\<rparr>)"
  by (simp add: Let_def)


text \<open>
  The loop on a list in which callbacks that return are followed by one that throws: the
  callbacks before it and the thrower are called, those after it are not.
\<close>

lemma call_each_thrower:
  "array_of a (this w) = pre @ gs @ Thrower k e # hs \<Longrightarrow> i = length pre \<Longrightarrow>
   list_all returns gs \<Longrightarrow>
   call_each a i (Suc (length gs + m)) args w =
     (Throw e, w\<lparr>calls := calls w @ map (\<lambda>f. (f, args)) (gs @ [Thrower k e])\<rparr>)"
proof (induction gs arbitrary: pre i w)
  case Nil
  then show ?case by (simp add: Let_def)
next
  case (Cons g gs)
  from Cons.prems(3) obtain j where g: "g = Fn j" and gs: "list_all returns gs"
    by (auto dest: returns_Fn)
  let ?w1 = "w\<lparr>calls := calls w @ [(Fn j, args)]\<rparr>"
  have "i < length (array_of a (this w))" and "array_of a (this w) ! i = Fn j"
    using Cons.prems(1,2) g by (simp_all add: nth_append)
  then have "call_each a i (Suc (Suc (length gs + m))) args w =
             call_each a (Suc i) (Suc (length gs + m)) args ?w1"
    by (rule call_each_step)
  moreover have "Suc (length (g # gs) + m) = Suc (Suc (length gs + m))"
    by simp
  ultimately have step: "call_each a i (Suc (length (g # gs) + m)) args w =
              call_each a (Suc i) (Suc (length gs + m)) args ?w1"
    by (simp only:)
  have "array_of a (this ?w1) = (pre @ [g]) @ gs @ Thrower k e # hs"
    using Cons.prems(1) by simp
  moreover have "Suc i = length (pre @ [g])"
    using Cons.prems(2) by simp
  ultimately have "call_each a (Suc i) (Suc (length gs + m)) args ?w1 =
      (Throw e, ?w1\<lparr>calls := calls ?w1 @ map (\<lambda>f. (f, args)) (gs @ [Thrower k e])\<rparr>)"
    using gs by (rule Cons.IH)
  with step show ?case
    by (simp add: g)
qed

lemma onMapInteract_thrower_ends_loop:
  "list_all returns gs \<Longrightarrow> mapClickCallbacks (this w) = gs @ Thrower k e # hs \<Longrightarrow>
   onMapInteract ''mapClickCallbacks'' args w =
     (Throw e, w\<lparr>calls := calls w @ map (\<lambda>f. (f, args)) (gs @ [Thrower k e])\<rparr>)"
  using call_each_thrower [of "''mapClickCallbacks''" w "[]" gs k e hs 0 "length hs" args]
  by (simp add: onMapInteract_def array_of_def)

text \<open>
  A callback that pops the list: the length was read before the loop, so the turn after
  it reads \<^verbatim>\<open>undefined\<close>, and calling that throws.
\<close>

lemma onMapInteract_after_pop:
  "mapClickCallbacks (this popper_first) = [Popper 1, Fn 2] \<and>
   fst (onMapInteract ''mapClickCallbacks'' (Str ''P'') popper_first) = Throw TypeError \<and>
   calls (snd (onMapInteract ''mapClickCallbacks'' (Str ''P'') popper_first)) = [(Popper 1, Str ''P'')] \<and>
   mapClickCallbacks (this (snd (onMapInteract ''mapClickCallbacks'' (Str ''P'') popper_first))) = [Popper 1]"
  by (simp add: popper_first_def new_world_def new_facade_def registerMapClickEvent_def
      onMapInteract_def array_of_def put_array_def Let_def)



lemma fire_marker_built:
  assumes "h < length (marker_objs w)" "marker_objs w ! h = built_marker f callback c"
  shows "fire_marker h ''click'' w =
           (if typeof callback = ''function'' then w\<lparr>calls := calls w @ [(callback, c)]\<rparr> else w)"
  using assms by (simp add: fire_marker_def built_marker_def split: option.splits)

lemma chain_step:
  "chain (c # cs) w = (ReturnThis, w') \<Longrightarrow>
   \<exists>w1. invoke c w = (ReturnThis, w1) \<and> chain cs w1 = (ReturnThis, w')"
  by (cases "invoke c w") (auto split: completion.splits)

lemma upt_two:
  "[a ..< a + m] @ [a + m ..< a + (m + n)] = [a ..< a + (m + (n::nat))]"
  using upt_add_eq_append [of a "a + m" n] by (simp add: add.assoc)

lemma data_built_markers:
  "map data_m (map (built_marker f callback) cs) = cs"
  by (induction cs) (simp_all add: built_marker_def)

text \<open>What a chain of adding calls that does not throw leaves.\<close>

lemma adds_chain:
  "list_all adds cs \<Longrightarrow> chain cs w = (ReturnThis, w') \<Longrightarrow>
   mapClickCallbacks (this w') = mapClickCallbacks (this w) @ click_functions cs \<and>
   mapZoomCallbacks (this w') = mapZoomCallbacks (this w) @ zoom_functions cs \<and>
   markers (this w') = markers (this w) @
     [length (marker_objs w) ..< length (marker_objs w) + length (entries_of cs)] \<and>
   (\<exists>ms. marker_objs w' = marker_objs w @ ms \<and> map data_m ms = entries_of cs) \<and>
   map_f (this w') = map_f (this w) \<and> widgets w' = widgets w \<and> calls w' = calls w"
proof (induction cs arbitrary: w)
  case Nil
  then show ?case by simp
next
  case (Cons c cs)
  from chain_step [OF Cons.prems(2)] obtain w1 where
    c: "invoke c w = (ReturnThis, w1)" and cs: "chain cs w1 = (ReturnThis, w')"
    by blast
  from Cons.prems(1) have a: "adds c" and as: "list_all adds cs" by simp_all
  note ih = Cons.IH [OF as cs]
  show ?case
  proof (cases c)
    case (AddMarkers coordsArray callback)
    have ok: "list_all has_latLng coordsArray"
    proof (rule ccontr)
      assume "\<not> list_all has_latLng coordsArray"
      from addMarkers_throws [OF this, of callback w] c AddMarkers show False by simp
    qed
    from c AddMarkers have w1: "w1 = w\<lparr>marker_objs := marker_objs w @ map (built_marker (this w) callback) coordsArray,
        this := (this w)\<lparr>markers := markers (this w) @
                  [length (marker_objs w) ..< length (marker_objs w) + length coordsArray]\<rparr>\<rparr>"
      by (simp add: addMarkers_entries [OF ok])
    from ih obtain ms where ms: "marker_objs w' = marker_objs w1 @ ms" "map data_m ms = entries_of cs"
      by blast
    have m: "marker_objs w' = marker_objs w @ (map (built_marker (this w) callback) coordsArray @ ms)"
      by (simp add: ms w1)
    have d: "map data_m (map (built_marker (this w) callback) coordsArray @ ms) = entries_of (c # cs)"
      by (simp only: map_append data_built_markers ms AddMarkers entries_of.simps)
    have l1: "length (marker_objs w1) = length (marker_objs w) + length coordsArray"
      by (simp add: w1)
    have u: "[length (marker_objs w) ..< length (marker_objs w) + length coordsArray] @
             [length (marker_objs w1) ..< length (marker_objs w1) + length (entries_of cs)] =
             [length (marker_objs w) ..< length (marker_objs w) + length (entries_of (c # cs))]"
      unfolding l1 AddMarkers entries_of.simps length_append
      by (simp only: add.assoc upt_two)
    have mk: "markers (this w') = markers (this w) @
       [length (marker_objs w) ..< length (marker_objs w) + length (entries_of (c # cs))]"
    proof -
      from ih have "markers (this w') = markers (this w1) @
         [length (marker_objs w1) ..< length (marker_objs w1) + length (entries_of cs)]" by blast
      also have "markers (this w1) = markers (this w) @
         [length (marker_objs w) ..< length (marker_objs w) + length coordsArray]" by (simp add: w1)
      finally show ?thesis unfolding append_assoc u .
    qed
    have rest: "mapClickCallbacks (this w1) = mapClickCallbacks (this w)"
      "mapZoomCallbacks (this w1) = mapZoomCallbacks (this w)"
      "map_f (this w1) = map_f (this w)" "widgets w1 = widgets w" "calls w1 = calls w"
      by (simp_all add: w1)
    have cf: "click_functions (c # cs) = click_functions cs" "zoom_functions (c # cs) = zoom_functions cs"
      by (simp_all add: AddMarkers)
    from ih rest cf mk m d show ?thesis
      by metis
  next
    case (RegisterMapZoomEvent callback)
    with c ih show ?thesis
      by (auto simp add: registerMapZoomEvent_def split: if_splits)
  next
    case (RegisterMapClickEvent callback)
    with c ih show ?thesis
      by (auto simp add: registerMapClickEvent_def split: if_splits)
  qed (use a in simp_all)
qed

text \<open>No method but \<^verbatim>\<open>init\<close> assigns \<^verbatim>\<open>this.map\<close>.\<close>

lemma addMarkers_map_f:
  "map_f (this (snd (addMarkers cs callback w))) = map_f (this w)"
  by (induction cs arbitrary: w)
     (simp_all add: new_Marker_def assignMarkerEvent_def split: sum.splits)

lemma on_widget_map_f:
  "map_f (this (snd (on_widget g w))) = map_f (this w)"
  by (simp add: on_widget_def split: jsval.splits)

lemma invoke_map_f:
  "c \<noteq> Init \<Longrightarrow> map_f (this (snd (invoke c w))) = map_f (this w)"
  by (cases c)
     (simp_all add: setCenter_def setZoom_def on_widget_map_f addMarkers_map_f setAllMap_def
        clearMarkers_def showMarkers_def deleteMarkers_def registerMapZoomEvent_def
        registerMapClickEvent_def onMapInteract_def split: sum.splits)

lemma chain_map_f:
  "Init \<notin> set cs \<Longrightarrow> map_f (this (snd (chain cs w))) = map_f (this w)"
proof (induction cs arbitrary: w)
  case Nil
  then show ?case by simp
next
  case (Cons c cs)
  then have c: "c \<noteq> Init" and cs: "Init \<notin> set cs" by auto
  show ?case
  proof (cases "invoke c w")
    case (Pair r w1)
    with invoke_map_f [OF c, of w] have m: "map_f (this w1) = map_f (this w)" by simp
    from Pair m Cons.IH [OF cs, of w1] show ?thesis
      by (cases r) simp_all
  qed
qed

text \<open>
  The handles of the marker list are addresses of marker objects: this holds of a new
  facade and every method keeps it, also one that throws.
\<close>

lemma handles_ok_addMarkers:
  "handles_ok w \<Longrightarrow> handles_ok (snd (addMarkers cs callback w))"
proof (induction cs arbitrary: w)
  case Nil
  then show ?case by simp
next
  case (Cons c cs)
  let ?w3 = "w\<lparr>marker_objs := marker_objs w @ [built_marker (this w) callback c],
                this := (this w)\<lparr>markers := markers (this w) @ [length (marker_objs w)]\<rparr>\<rparr>"
  show ?case
  proof (cases "has_latLng c")
    case True
    from Cons.prems have "handles_ok ?w3"
      by (auto simp add: handles_ok_def list_all_iff)
    from Cons.IH [OF this] show ?thesis
      unfolding addMarkers_step [OF True] .
  next
    case False
    with Cons.prems show ?thesis
      unfolding has_latLng_def
      by (cases "js_get c (Name ''latLng'')") (auto dest: js_get_error)
  qed
qed

lemma handles_ok_invoke:
  "handles_ok w \<Longrightarrow> handles_ok (snd (invoke c w))"
proof (cases c)
  case (AddMarkers coordsArray callback)
  assume "handles_ok w"
  with AddMarkers show ?thesis by (simp add: handles_ok_addMarkers)
qed (auto simp add: handles_ok_def setCenter_def setZoom_def on_widget_def setAllMap_def
        clearMarkers_def showMarkers_def deleteMarkers_def registerMapZoomEvent_def
        registerMapClickEvent_def onMapInteract_def init_def split: sum.splits jsval.splits)

lemma handles_ok_chain:
  "handles_ok w \<Longrightarrow> handles_ok (snd (chain cs w))"
proof (induction cs arbitrary: w)
  case Nil
  then show ?case by simp
next
  case (Cons c cs)
  show ?case
  proof (cases "invoke c w")
    case (Pair r w1)
    with handles_ok_invoke [OF Cons.prems, of c] have "handles_ok w1" by simp
    from Cons.IH [OF this] Pair \<open>handles_ok w1\<close> show ?thesis
      by (cases r) simp_all
  qed
qed

lemma handles_ok_new:
  "Map el options = Inr f \<Longrightarrow> handles_ok \<lparr>this = f, marker_objs = ms, widgets = gs, calls = ks\<rparr>"
  by (auto simp add: Map_def handles_ok_def split: sum.splits)

section \<open>The claims of the specification\<close>

text \<open>
  C1. On an array of N entries whose \<^verbatim>\<open>latLng\<close> can be indexed, \<^verbatim>\<open>addMarkers\<close> returns
  the facade; the marker list is the former list followed by N new handles, in the order
  of the entries; the marker objects that were there are kept; the i-th new marker holds
  the i-th entry as its \<^verbatim>\<open>data\<close>, and with it the entry's payload. Nothing is
  de-duplicated: the same array added again makes N more handles.
\<close>

theorem addMarkers_appends_handles:
  assumes "list_all has_latLng coordsArray"
    and "addMarkers coordsArray callback w = (r, w')"
  shows "r = ReturnThis \<and>
         markers (this w') = markers (this w) @
           [length (marker_objs w) ..< length (marker_objs w) + length coordsArray] \<and>
         length (markers (this w')) = length (markers (this w)) + length coordsArray \<and>
         length (marker_objs w') = length (marker_objs w) + length coordsArray \<and>
         take (length (marker_objs w)) (marker_objs w') = marker_objs w \<and>
         (\<forall>i < length coordsArray.
            data_m (marker_objs w' ! (length (marker_objs w) + i)) = coordsArray ! i \<and>
            js_get (data_m (marker_objs w' ! (length (marker_objs w) + i))) (Name ''data'') =
              js_get (coordsArray ! i) (Name ''data'')) \<and>
         length (markers (this (snd (addMarkers coordsArray callback w')))) =
           length (markers (this w)) + 2 * length coordsArray"
proof -
  from assms have w': "w' = w\<lparr>marker_objs := marker_objs w @ map (built_marker (this w) callback) coordsArray,
        this := (this w)\<lparr>markers := markers (this w) @
                  [length (marker_objs w) ..< length (marker_objs w) + length coordsArray]\<rparr>\<rparr>"
    and r: "r = ReturnThis"
    by (simp_all add: addMarkers_entries)
  have d: "\<forall>i < length coordsArray. data_m (marker_objs w' ! (length (marker_objs w) + i)) = coordsArray ! i"
    by (simp add: w' nth_append built_marker_def)
  have twice: "length (markers (this (snd (addMarkers coordsArray callback w')))) =
           length (markers (this w)) + 2 * length coordsArray"
    by (simp add: addMarkers_entries [OF assms(1)] w')
  from r d twice show ?thesis
    by (simp add: w')
qed

theorem addMarkers_appends_handles_witness:
  "list_all has_latLng [entry_a, entry_b] \<and>
   fst (addMarkers [entry_a, entry_b] (Fn 0) two_markers) = ReturnThis \<and>
   markers (this two_markers) = [0, 1] \<and>
   markers (this (snd (addMarkers [entry_a, entry_b] (Fn 0) two_markers))) = [0, 1, 2, 3] \<and>
   map data_m (marker_objs (snd (addMarkers [entry_a, entry_b] (Fn 0) two_markers))) =
     [entry_a, entry_b, entry_a, entry_b]"
  using addMarkers_appends_handles [of "[entry_a, entry_b]" "Fn 0" two_markers
      "fst (addMarkers [entry_a, entry_b] (Fn 0) two_markers)"
      "snd (addMarkers [entry_a, entry_b] (Fn 0) two_markers)"]
  by (simp add: example_defs has_latLng_def)

text \<open>
  C2, as stated, fails: the marker is built with \<^verbatim>\<open>data : coordsArray[i]\<close>, the whole
  entry, and the listener passes \<^verbatim>\<open>this.data\<close> on. For the entry
  \<^verbatim>\<open>{latLng: [1,2], data: {a:1}}\<close> the callback receives the entry, not the payload
  \<^verbatim>\<open>{a:1}\<close>.
\<close>

theorem marker_click_not_payload:
  "js_get entry_a (Name ''data'') = Inr (Obj [(Name ''a'', Num (Finite 1))]) \<and>
   calls (fire_marker 0 ''click'' (snd (addMarkers [entry_a] (Fn 0) new_world))) = [(Fn 0, entry_a)] \<and>
   calls (fire_marker 0 ''click'' (snd (addMarkers [entry_a] (Fn 0) new_world)))
     \<noteq> [(Fn 0, Obj [(Name ''a'', Num (Finite 1))])]"
  by (simp add: example_defs fire_marker_def)

text \<open>
  C2, amended. For every marker made by \<^verbatim>\<open>addMarkers\<close> from an array of entries whose
  \<^verbatim>\<open>latLng\<close> can be indexed, with a function as callback: when the click event of the
  marker of the i-th entry fires, the callback is called once, with the i-th entry itself
  (its coordinates and its payload), and nothing else changes.
\<close>

theorem marker_click_passes_entry:
  assumes "list_all has_latLng coordsArray"
    and "typeof callback = ''function''"
    and "i < length coordsArray"
    and "addMarkers coordsArray callback w = (r, w')"
  shows "fire_marker (markers (this w') ! (length (markers (this w)) + i)) ''click'' w' =
           w'\<lparr>calls := calls w @ [(callback, coordsArray ! i)]\<rparr>"
proof -
  from assms(1,4) have w': "w' = w\<lparr>marker_objs := marker_objs w @ map (built_marker (this w) callback) coordsArray,
        this := (this w)\<lparr>markers := markers (this w) @
                  [length (marker_objs w) ..< length (marker_objs w) + length coordsArray]\<rparr>\<rparr>"
    by (simp add: addMarkers_entries)
  from assms(3) have h: "markers (this w') ! (length (markers (this w)) + i) = length (marker_objs w) + i"
    by (simp add: w' nth_append)
  from assms(3) have "length (marker_objs w) + i < length (marker_objs w')"
    and "marker_objs w' ! (length (marker_objs w) + i) = built_marker (this w) callback (coordsArray ! i)"
    and "calls w' = calls w"
    by (simp_all add: w' nth_append)
  with assms(2) show ?thesis
    unfolding h by (simp add: fire_marker_built)
qed

theorem marker_click_passes_entry_witness:
  "list_all has_latLng [entry_a, entry_b] \<and> typeof (Fn 0) = ''function'' \<and>
   (1::nat) < length [entry_a, entry_b] \<and>
   calls (fire_marker (markers (this (snd (addMarkers [entry_a, entry_b] (Fn 0) new_world))) ! 1) ''click''
      (snd (addMarkers [entry_a, entry_b] (Fn 0) new_world))) = [(Fn 0, entry_b)]"
  using marker_click_passes_entry [of "[entry_a, entry_b]" "Fn 0" 1 new_world
      "fst (addMarkers [entry_a, entry_b] (Fn 0) new_world)"
      "snd (addMarkers [entry_a, entry_b] (Fn 0) new_world)"]
  by (simp add: example_defs has_latLng_def fire_marker_def)

text \<open>
  C3. In every state, \<^verbatim>\<open>deleteMarkers\<close> returns the facade and leaves its marker list
  empty, after \<^verbatim>\<open>clearMarkers\<close> has run: every marker object whose handle was in the
  list has its map set to \<^verbatim>\<open>null\<close> and is otherwise as it was, and the other marker
  objects are untouched.
\<close>

theorem deleteMarkers_hides_then_empties:
  "fst (deleteMarkers w) = ReturnThis \<and>
   markers (this (snd (deleteMarkers w))) = [] \<and>
   snd (deleteMarkers w) = (snd (clearMarkers w))\<lparr>this := (this w)\<lparr>markers := []\<rparr>\<rparr> \<and>
   length (marker_objs (snd (deleteMarkers w))) = length (marker_objs w) \<and>
   (\<forall>h \<in> set (markers (this w)). h < length (marker_objs w) \<longrightarrow>
      marker_objs (snd (deleteMarkers w)) ! h = (marker_objs w ! h)\<lparr>map_m := Null\<rparr>) \<and>
   (\<forall>k < length (marker_objs w). k \<notin> set (markers (this w)) \<longrightarrow>
      marker_objs (snd (deleteMarkers w)) ! k = marker_objs w ! k)"
  by (simp add: deleteMarkers_def clearMarkers_def setAllMap_def setMap_each_nth)

theorem deleteMarkers_hides_then_empties_witness:
  "(0::nat) \<in> set (markers (this two_markers)) \<and> 0 < length (marker_objs two_markers) \<and>
   map_m (marker_objs two_markers ! 0) = WidgetRef 0 \<and>
   markers (this (snd (deleteMarkers two_markers))) = [] \<and>
   map_m (marker_objs (snd (deleteMarkers two_markers)) ! 0) = Null \<and>
   data_m (marker_objs (snd (deleteMarkers two_markers)) ! 0) = entry_a"
  using deleteMarkers_hides_then_empties [of two_markers]
  by (simp add: example_defs deleteMarkers_def clearMarkers_def setAllMap_def)

text \<open>
  C4. In every state, \<^verbatim>\<open>clearMarkers\<close> returns the facade and changes nothing of it:
  the marker list holds the same handles in the same order. Of the marker objects, those
  in the list have their map set to \<^verbatim>\<open>null\<close> and nothing else changed.
\<close>

theorem clearMarkers_keeps_handles:
  "fst (clearMarkers w) = ReturnThis \<and>
   this (snd (clearMarkers w)) = this w \<and>
   markers (this (snd (clearMarkers w))) = markers (this w) \<and>
   length (markers (this (snd (clearMarkers w)))) = length (markers (this w)) \<and>
   length (marker_objs (snd (clearMarkers w))) = length (marker_objs w) \<and>
   widgets (snd (clearMarkers w)) = widgets w \<and>
   calls (snd (clearMarkers w)) = calls w \<and>
   (\<forall>h \<in> set (markers (this w)). h < length (marker_objs w) \<longrightarrow>
      marker_objs (snd (clearMarkers w)) ! h = (marker_objs w ! h)\<lparr>map_m := Null\<rparr>) \<and>
   (\<forall>k < length (marker_objs w). k \<notin> set (markers (this w)) \<longrightarrow>
      marker_objs (snd (clearMarkers w)) ! k = marker_objs w ! k)"
  by (simp add: clearMarkers_def setAllMap_def setMap_each_nth)

theorem clearMarkers_keeps_handles_witness:
  "(1::nat) \<in> set (markers (this two_markers)) \<and> 1 < length (marker_objs two_markers) \<and>
   map_m (marker_objs two_markers ! 1) = WidgetRef 0 \<and>
   markers (this (snd (clearMarkers two_markers))) = [0, 1] \<and>
   map_m (marker_objs (snd (clearMarkers two_markers)) ! 1) = Null \<and>
   data_m (marker_objs (snd (clearMarkers two_markers)) ! 1) = entry_b"
  using clearMarkers_keeps_handles [of two_markers]
  by (simp add: example_defs clearMarkers_def setAllMap_def)




text \<open>
  C6. \<^verbatim>\<open>setZoom\<close> with an argument that is not a number returns the facade and changes
  nothing, neither the facade nor the widget. With a number, and a widget made by
  \<^verbatim>\<open>init\<close>, it returns the facade and the widget's zoom is that number, which
  \<^verbatim>\<open>getZoom\<close> then reads back.
\<close>

theorem setZoom_only_numbers:
  "(typeof z \<noteq> ''number'' \<longrightarrow> setZoom z w = (ReturnThis, w)) \<and>
   (typeof z = ''number'' \<longrightarrow> map_f (this w) = WidgetRef a \<longrightarrow> a < length (widgets w) \<longrightarrow>
      setZoom z w = (ReturnThis, w\<lparr>widgets := (widgets w)[a := (widgets w ! a)\<lparr>zoom_w := z\<rparr>]\<rparr>) \<and>
      getZoom (snd (setZoom z w)) = (ReturnVal z, snd (setZoom z w)))"
  by (simp add: setZoom_def on_widget_def getZoom_def)

theorem setZoom_only_numbers_witness:
  "typeof (Str ''7'') \<noteq> ''number'' \<and> setZoom (Str ''7'') two_markers = (ReturnThis, two_markers) \<and>
   typeof (Num (Finite 7)) = ''number'' \<and> map_f (this two_markers) = WidgetRef 0 \<and>
   0 < length (widgets two_markers) \<and>
   zoom_w (widgets two_markers ! 0) = Num (Finite 4) \<and>
   fst (setZoom (Num (Finite 7)) two_markers) = ReturnThis \<and>
   zoom_w (widgets (snd (setZoom (Num (Finite 7)) two_markers)) ! 0) = Num (Finite 7)"
  using setZoom_only_numbers [of "Str ''7''" two_markers 0]
    setZoom_only_numbers [of "Num (Finite 7)" two_markers 0]
  by (simp add: example_defs)

text \<open>
  C7. \<^verbatim>\<open>registerMapClickEvent\<close> and \<^verbatim>\<open>registerMapZoomEvent\<close> return the facade. Given
  a function, they append it at the end of their list and change nothing else; given
  anything else, they change nothing and throw nothing.
\<close>

theorem register_only_functions:
  "(typeof callback = ''function'' \<longrightarrow>
      registerMapClickEvent callback w =
        (ReturnThis, w\<lparr>this := (this w)\<lparr>mapClickCallbacks := mapClickCallbacks (this w) @ [callback]\<rparr>\<rparr>) \<and>
      registerMapZoomEvent callback w =
        (ReturnThis, w\<lparr>this := (this w)\<lparr>mapZoomCallbacks := mapZoomCallbacks (this w) @ [callback]\<rparr>\<rparr>)) \<and>
   (typeof callback \<noteq> ''function'' \<longrightarrow>
      registerMapClickEvent callback w = (ReturnThis, w) \<and>
      registerMapZoomEvent callback w = (ReturnThis, w))"
  by (simp add: registerMapClickEvent_def registerMapZoomEvent_def)

theorem register_only_functions_witness:
  "typeof (Fn 1) = ''function'' \<and>
   mapClickCallbacks (this (snd (registerMapClickEvent (Fn 1) new_world))) = [Fn 1] \<and>
   mapZoomCallbacks (this (snd (registerMapZoomEvent (Fn 1) new_world))) = [Fn 1] \<and>
   typeof (Str ''f'') \<noteq> ''function'' \<and>
   registerMapClickEvent (Str ''f'') new_world = (ReturnThis, new_world) \<and>
   registerMapZoomEvent (Str ''f'') new_world = (ReturnThis, new_world)"
  using register_only_functions [of "Fn 1" new_world] register_only_functions [of "Str ''f''" new_world]
  by (simp add: new_world_def new_facade_def)

text \<open>
  C8, as stated, fails: the constructor reads \<^verbatim>\<open>options.icon\<close> and nothing else, and
  \<^verbatim>\<open>mapOptions\<close> is a literal. With the options \<^verbatim>\<open>{zoom: 10}\<close> the facade's widget
  options, and the widget that \<^verbatim>\<open>init\<close> then makes, have zoom 4.
\<close>

theorem Map_ignores_zoom_option:
  "Map (Str ''#map'') (Obj [(Name ''zoom'', Num (Finite 10))]) = Inr new_facade \<and>
   zoom (mapOptions new_facade) = Num (Finite 4) \<and>
   zoom (mapOptions new_facade) \<noteq> Num (Finite 10) \<and>
   zoom (options_w (widgets (snd (init new_world)) ! 0)) = Num (Finite 4) \<and>
   zoom_w (widgets (snd (init new_world)) ! 0) = Num (Finite 4)"
  by (simp add: Map_def defaultOptions_icon_def new_facade_def new_world_def init_def)

text \<open>
  C8, amended. At construction the facade recognises the icon path alone, with
  \<^verbatim>\<open>map-pin.png\<close> when it is absent or falsy. The widget options are constants: zoom 4,
  default UI disabled, no scroll wheel, zoom control shown, large and at the right top,
  no scale control, centre (47.147354, 16.158813). Every other key of the options is
  ignored.
\<close>

theorem Map_reads_icon_only:
  assumes "options \<noteq> Undefined" and "options \<noteq> Null"
  shows "\<exists>i. js_get options (Name ''icon'') = Inr i \<and>
           Map el options =
             Inr \<lparr> map_f = Null, markers = [], mapClickCallbacks = [], mapZoomCallbacks = [],
                   elem = el,
                   icon = (if truthy i then i else Str ''map-pin.png''),
                   mapOptions =
                     \<lparr> zoom = Num (Finite 4), disableDefaultUI = True, scrollwheel = False,
                       zoomControl = True,
                       center = LatLng (Num (Finite 47.147354)) (Num (Finite 16.158813)),
                       zoomControlOptions = \<lparr> style = LARGE, position = RIGHT_TOP \<rparr>,
                       scaleControl = False \<rparr> \<rparr>"
proof -
  from js_get_defined [OF assms] obtain i where "js_get options (Name ''icon'') = Inr i"
    by blast
  then show ?thesis
    by (simp add: Map_def defaultOptions_icon_def)
qed

theorem Map_reads_icon_only_witness:
  "Obj [(Name ''zoom'', Num (Finite 10)), (Name ''icon'', Str ''pin.png'')] \<noteq> Undefined \<and>
   Obj [(Name ''zoom'', Num (Finite 10)), (Name ''icon'', Str ''pin.png'')] \<noteq> Null \<and>
   Map (Str ''#map'') (Obj [(Name ''zoom'', Num (Finite 10)), (Name ''icon'', Str ''pin.png'')]) =
     Inr (new_facade\<lparr>icon := Str ''pin.png''\<rparr>)"
  using Map_reads_icon_only [of "Obj [(Name ''zoom'', Num (Finite 10)), (Name ''icon'', Str ''pin.png'')]" "Str ''#map''"]
  by (simp add: new_facade_def)

text \<open>
  C9. When the global object of the library is there but its \<^verbatim>\<open>maps\<close> namespace is
  not (\<^verbatim>\<open>google = {}\<close>), the library did not load, and yet the callback raises nothing
  and publishes the constructor: the guard joins its two tests with \<^verbatim>\<open>&&\<close>, so the second
  one is only reached when \<^verbatim>\<open>google\<close> itself is falsy.
\<close>

theorem loader_callback_publishes_without_maps:
  "\<not> library_loaded (Bound (Obj [])) \<and> loader_callback (Bound (Obj [])) Pending = Inr Resolved"
  by (simp add: library_loaded_def loader_callback_def library_guard_def)

text \<open>
  C10. A facade that the constructor returns has no widget (\<^verbatim>\<open>this.map\<close> is
  \<^verbatim>\<open>null\<close>) and three empty lists. After any chain of \<^verbatim>\<open>registerMapClickEvent\<close>,
  \<^verbatim>\<open>registerMapZoomEvent\<close> and \<^verbatim>\<open>addMarkers\<close> that does not throw, the click list is
  exactly the functions registered for clicks, the zoom list exactly those registered for
  zooms, and the marker list exactly one new handle for each entry added, each marker
  holding its entry, all in the order of the calls. \<^verbatim>\<open>this.map\<close> stays \<^verbatim>\<open>null\<close>
  through any chain without \<^verbatim>\<open>init\<close>, and \<^verbatim>\<open>init\<close> sets it to the new widget.
\<close>

theorem new_facade_lists:
  assumes "Map el options = Inr f"
    and "list_all adds cs"
    and "chain cs \<lparr>this = f, marker_objs = ms, widgets = gs, calls = ks\<rparr> = (ReturnThis, w')"
  shows "map_f f = Null \<and> markers f = [] \<and> mapClickCallbacks f = [] \<and> mapZoomCallbacks f = [] \<and>
         mapClickCallbacks (this w') = click_functions cs \<and>
         mapZoomCallbacks (this w') = zoom_functions cs \<and>
         markers (this w') = [length ms ..< length ms + length (entries_of cs)] \<and>
         take (length ms) (marker_objs w') = ms \<and>
         map data_m (drop (length ms) (marker_objs w')) = entries_of cs \<and>
         (Init \<notin> set ds \<longrightarrow>
            map_f (this (snd (chain ds \<lparr>this = f, marker_objs = ms, widgets = gs, calls = ks\<rparr>))) = Null) \<and>
         map_f (this (snd (init w'))) = WidgetRef (length gs)"
proof -
  from assms(1) have f: "map_f f = Null" "markers f = []" "mapClickCallbacks f = []" "mapZoomCallbacks f = []"
    by (auto simp add: Map_def split: sum.splits)
  from adds_chain [OF assms(2,3)] obtain ns where
    a: "mapClickCallbacks (this w') = mapClickCallbacks f @ click_functions cs"
       "mapZoomCallbacks (this w') = mapZoomCallbacks f @ zoom_functions cs"
       "markers (this w') = markers f @ [length ms ..< length ms + length (entries_of cs)]"
       "marker_objs w' = ms @ ns" "map data_m ns = entries_of cs"
       "widgets w' = gs"
    by auto
  have i: "map_f (this (snd (init w'))) = WidgetRef (length gs)"
    by (simp add: init_def a(6))
  have u: "Init \<notin> set ds \<longrightarrow>
            map_f (this (snd (chain ds \<lparr>this = f, marker_objs = ms, widgets = gs, calls = ks\<rparr>))) = Null"
    by (simp add: chain_map_f f)
  from f a i u show ?thesis
    by simp
qed

theorem new_facade_lists_witness:
  "Map (Str ''#map'') (Obj []) = Inr new_facade \<and>
   list_all adds [RegisterMapClickEvent (Fn 1), AddMarkers [entry_a, entry_b] (Fn 0),
                  RegisterMapZoomEvent (Fn 2), RegisterMapClickEvent (Str ''x'')] \<and>
   fst (chain [RegisterMapClickEvent (Fn 1), AddMarkers [entry_a, entry_b] (Fn 0),
               RegisterMapZoomEvent (Fn 2), RegisterMapClickEvent (Str ''x'')] new_world) = ReturnThis \<and>
   mapClickCallbacks (this (snd (chain [RegisterMapClickEvent (Fn 1), AddMarkers [entry_a, entry_b] (Fn 0),
               RegisterMapZoomEvent (Fn 2), RegisterMapClickEvent (Str ''x'')] new_world))) = [Fn 1] \<and>
   mapZoomCallbacks (this (snd (chain [RegisterMapClickEvent (Fn 1), AddMarkers [entry_a, entry_b] (Fn 0),
               RegisterMapZoomEvent (Fn 2), RegisterMapClickEvent (Str ''x'')] new_world))) = [Fn 2] \<and>
   markers (this (snd (chain [RegisterMapClickEvent (Fn 1), AddMarkers [entry_a, entry_b] (Fn 0),
               RegisterMapZoomEvent (Fn 2), RegisterMapClickEvent (Str ''x'')] new_world))) = [0, 1] \<and>
   map data_m (marker_objs (snd (chain [RegisterMapClickEvent (Fn 1), AddMarkers [entry_a, entry_b] (Fn 0),
               RegisterMapZoomEvent (Fn 2), RegisterMapClickEvent (Str ''x'')] new_world))) = [entry_a, entry_b] \<and>
   Init \<notin> set [DeleteMarkers, SetZoom (Num (Finite 7))] \<and>
   map_f (this (snd (chain [DeleteMarkers, SetZoom (Num (Finite 7))] new_world))) = Null"
  using new_facade_lists [of "Str ''#map''" "Obj []" new_facade
      "[RegisterMapClickEvent (Fn 1), AddMarkers [entry_a, entry_b] (Fn 0),
        RegisterMapZoomEvent (Fn 2), RegisterMapClickEvent (Str ''x'')]" "[]" "[]" "[]"
      "snd (chain [RegisterMapClickEvent (Fn 1), AddMarkers [entry_a, entry_b] (Fn 0),
               RegisterMapZoomEvent (Fn 2), RegisterMapClickEvent (Str ''x'')] new_world)"
      "[DeleteMarkers, SetZoom (Num (Finite 7))]"]
  by (simp add: example_defs Map_def defaultOptions_icon_def registerMapClickEvent_def
      registerMapZoomEvent_def deleteMarkers_def clearMarkers_def setAllMap_def setZoom_def on_widget_def)

end
